theory Spec2Isabelle
  imports Complex_Main
begin

section \<open>Python values used by telegram\_clima\_agenda.py\<close>

text \<open>
  A Python \<open>str\<close> is a sequence of Unicode code points, so it is modelled as a list of
  code points. \<open>asc\<close> turns an ASCII literal into such a list; the non-ASCII glyphs of the
  program's literals are written as their code points.
\<close>

type_synonym pystr = "nat list"

definition asc :: "string \<Rightarrow> pystr" where
  "asc s = map of_char s"

text \<open>The exceptions the program can meet. \<open>ExternalError\<close> stands for whatever an
  external collaborator (HTTP, the Telegram client) raises.\<close>

datatype pyerr = IndexError | KeyError | TypeError | OverflowError | ValueError
  | RuntimeError | ExternalError

definition bindE :: "pyerr + 'a \<Rightarrow> ('a \<Rightarrow> pyerr + 'b) \<Rightarrow> pyerr + 'b" where
  "bindE m f = (case m of Inl e \<Rightarrow> Inl e | Inr x \<Rightarrow> f x)"

section \<open>JSON values\<close>

text \<open>
  What \<open>r.json()\<close> returns: \<open>None\<close>, \<open>bool\<close>, \<open>int\<close>, \<open>float\<close>, \<open>str\<close>, \<open>list\<close>
  and \<open>dict\<close> with string keys. A float is kept as the rational it denotes, or one of the
  three special values the JSON decoder also accepts.
\<close>

datatype pyfloat = Finite rat | PosInf | NegInf | NaN

datatype json = JNull | JBool bool | JInt int | JFloat pyfloat | JStr pystr
  | JList "json list" | JDict "(pystr \<times> json) list"

section \<open>datetime, timedelta and tzinfo\<close>

text \<open>
  A \<open>datetime\<close> carries its wall-clock fields and an optional \<open>tzinfo\<close>. The wall clock is
  kept as the number of microseconds since 0001-01-01T00:00:00 (the date part is the
  quotient by one day, hour, minute, second and microsecond are read off the remainder);
  a \<open>timedelta\<close> is a number of microseconds. \<open>datetime\<close> only represents the years
  1 to 9999: arithmetic leaving that range raises \<open>OverflowError\<close>.

  A \<open>tzinfo\<close> object is identified by \<open>tzid\<close> (Python compares them with \<open>is\<close>);
  \<open>utcoffset\<close> is its offset for a wall-clock reading in that zone and
  \<open>utcoffset_utc\<close> its offset at a UTC instant, which is what \<open>fromutc\<close> adds.
  The \<open>fold\<close> attribute is not modelled.
\<close>

definition US_PER_MINUTE :: int where "US_PER_MINUTE = 60000000"
definition US_PER_HOUR :: int where "US_PER_HOUR = 3600000000"
definition US_PER_DAY :: int where "US_PER_DAY = 86400000000"

text \<open>3652059 is the ordinal of 9999-12-31, the last representable date.\<close>

definition MAX_US :: int where "MAX_US = 3652059 * 86400000000"

record tzinfo =
  tzid :: nat
  utcoffset :: "int \<Rightarrow> int"
  utcoffset_utc :: "int \<Rightarrow> int"

record datetime =
  wall :: int
  tzinfo :: "tzinfo option"

definition hour :: "datetime \<Rightarrow> int" where
  "hour d = (wall d mod US_PER_DAY) div US_PER_HOUR"

definition minute :: "datetime \<Rightarrow> int" where
  "minute d = (wall d mod US_PER_HOUR) div US_PER_MINUTE"

definition second :: "datetime \<Rightarrow> int" where
  "second d = (wall d mod US_PER_MINUTE) div 1000000"

definition microsecond :: "datetime \<Rightarrow> int" where
  "microsecond d = wall d mod 1000000"

text \<open>\<open>d.replace(hour=h, minute=m, second=s, microsecond=us)\<close>: the date is kept.\<close>

definition replace_time :: "datetime \<Rightarrow> int \<Rightarrow> int \<Rightarrow> int \<Rightarrow> int \<Rightarrow> datetime" where
  "replace_time d h m s us =
     d\<lparr>wall := (wall d div US_PER_DAY) * US_PER_DAY
                + h * US_PER_HOUR + m * US_PER_MINUTE + s * 1000000 + us\<rparr>"

text \<open>\<open>d + delta\<close>: wall-clock arithmetic, the tzinfo is kept.\<close>

definition add_timedelta :: "datetime \<Rightarrow> int \<Rightarrow> pyerr + datetime" where
  "add_timedelta d delta =
     (let w = wall d + delta
      in if 0 \<le> w \<and> w < MAX_US then Inr (d\<lparr>wall := w\<rparr>) else Inl OverflowError)"

text \<open>
  Python's rules for two datetimes: a naive and an aware one cannot be compared or
  subtracted (\<open>TypeError\<close>); two aware ones with the same tzinfo object, or two naive
  ones, are compared and subtracted on their wall clocks; two aware ones with different
  tzinfo objects on their UTC instants.
\<close>

definition dt_sub :: "datetime \<Rightarrow> datetime \<Rightarrow> pyerr + int" where
  "dt_sub a b =
     (case (tzinfo a, tzinfo b) of
        (None, None) \<Rightarrow> Inr (wall a - wall b)
      | (Some za, Some zb) \<Rightarrow>
          if tzid za = tzid zb then Inr (wall a - wall b)
          else Inr ((wall a - utcoffset za (wall a)) - (wall b - utcoffset zb (wall b)))
      | _ \<Rightarrow> Inl TypeError)"

definition dt_lt :: "datetime \<Rightarrow> datetime \<Rightarrow> pyerr + bool" where
  "dt_lt a b = bindE (dt_sub a b) (\<lambda>d. Inr (d < 0))"

definition dt_gt :: "datetime \<Rightarrow> datetime \<Rightarrow> pyerr + bool" where
  "dt_gt a b = bindE (dt_sub a b) (\<lambda>d. Inr (d > 0))"

text \<open>\<open>tz.UTC\<close>, dateutil's UTC singleton.\<close>

definition tz_UTC :: tzinfo where
  "tz_UTC = \<lparr>tzid = 0, utcoffset = (\<lambda>_. 0), utcoffset_utc = (\<lambda>_. 0)\<rparr>"

text \<open>
  \<open>d.astimezone(tz)\<close> for an aware \<open>d\<close> whose tzinfo is \<open>mytz\<close>: nothing to do when
  \<open>tz\<close> is \<open>d\<close>'s own tzinfo object; otherwise \<open>d\<close> is moved to UTC by subtracting its
  offset, and \<open>tz.fromutc\<close> adds the target's offset. Either step can leave the
  representable range.
\<close>

definition astimezone :: "datetime \<Rightarrow> tzinfo \<Rightarrow> tzinfo \<Rightarrow> pyerr + datetime" where
  "astimezone d mytz tz =
     (if tzid mytz = tzid tz then Inr d
      else bindE (add_timedelta d (- utcoffset mytz (wall d))) (\<lambda>utc.
           add_timedelta (utc\<lparr>tzinfo := Some tz\<rparr>) (utcoffset_utc tz (wall utc))))"

section \<open>The outside world\<close>

text \<open>
  A raw event as the calendar library hands it over: \<open>begin\<close> and \<open>end\<close> are Arrow
  objects (whose \<open>datetime\<close> attribute is the datetime) or plain datetimes, or \<open>None\<close>.
\<close>

datatype timestamp = Arrow datetime | Plain datetime

record raw_event =
  e_begin :: "timestamp option"
  e_end :: "timestamp option"
  e_name :: "pystr option"
  e_all_day :: bool
  e_location :: "pystr option"

text \<open>
  The module constants read from the environment, and the external calls of the program:
  \<^item> \<open>tz_gettz\<close>: the tzinfo object \<open>tz.gettz(name)\<close> finds (a name it does not
    know, for which it returns \<open>None\<close>, is not covered);
  \<^item> \<open>datetime_now\<close>: the wall clock of \<open>datetime.now(tz)\<close>, a datetime and so
    between 0 and \<open>MAX_US\<close>;
  \<^item> \<open>http_calendar\<close>: \<open>requests.get\<close>, \<open>raise_for_status\<close> and \<open>Calendar(r.text)\<close>
    for a URL, \<open>None\<close> when any of them raises; the events are listed in the order the
    loop meets them;
  \<^item> \<open>py_float\<close>, \<open>fmt_4f\<close>: \<open>float(s)\<close> and the format \<open>.4f\<close>, on floats \<open>'f\<close>;
  \<^item> \<open>geocode\<close>, \<open>fetch_weather\<close>: the two HTTP lookups of the weather provider;
  \<^item> \<open>py_repr\<close>: the text Python prints for a float, a list or a dict;
  \<^item> \<open>bot_send_message\<close>: the outcome of the Telegram call for the n-th message.
\<close>

record 'f world =
  BOT_TOKEN :: "pystr option"
  CHAT_ID :: "pystr option"
  env_CITY :: "pystr option"
  TZ_NAME :: pystr
  ICAL_URLS :: "pystr list"
  LAT :: "pystr option"
  LON :: "pystr option"
  tz_gettz :: "pystr \<Rightarrow> tzinfo"
  datetime_now :: "tzinfo \<Rightarrow> int"
  http_calendar :: "pystr \<Rightarrow> raw_event list option"
  py_float :: "pystr \<Rightarrow> 'f option"
  fmt_4f :: "'f \<Rightarrow> pystr"
  geocode :: "pystr \<Rightarrow> pyerr + 'f \<times> 'f \<times> pystr"
  fetch_weather :: "'f \<Rightarrow> 'f \<Rightarrow> pystr \<Rightarrow> pyerr + json"
  py_repr :: "json \<Rightarrow> pystr"
  bot_send_message :: "nat \<Rightarrow> pystr \<Rightarrow> pyerr option"

section \<open>fetch\_ics\_events\_today\<close>

text \<open>\<open>str.strip()\<close> removes the Unicode whitespace characters, \<open>str.strip(chars)\<close> the
  given ones, from both ends.\<close>

definition py_isspace :: "nat \<Rightarrow> bool" where
  "py_isspace c = (c \<in> {9, 10, 11, 12, 13, 28, 29, 30, 31, 32, 133, 160, 5760,
                        8232, 8233, 8239, 8287, 12288} \<or> (8192 \<le> c \<and> c \<le> 8202))"

definition strip_with :: "(nat \<Rightarrow> bool) \<Rightarrow> pystr \<Rightarrow> pystr" where
  "strip_with p s = rev (dropWhile p (rev (dropWhile p s)))"

text \<open>\<open>(raw or "").strip().strip('"').strip("'")\<close>\<close>

definition clean_url :: "pystr option \<Rightarrow> pystr" where
  "clean_url raw =
     strip_with (\<lambda>c. c = 39) (strip_with (\<lambda>c. c = 34)
       (strip_with py_isspace (case raw of None \<Rightarrow> [] | Some s \<Rightarrow> s)))"

text \<open>Lines 101-102: local midnight of today, and one day later.\<close>

definition today_window :: "'f world \<Rightarrow> tzinfo \<Rightarrow> pyerr + datetime \<times> datetime" where
  "today_window w tzlocal =
     (let start = replace_time \<lparr>wall = datetime_now w tzlocal, tzinfo = Some tzlocal\<rparr> 0 0 0 0
      in bindE (add_timedelta start US_PER_DAY) (\<lambda>endt. Inr (start, endt)))"

text \<open>Lines 104-112. A naive datetime gets \<open>tz.UTC\<close> before the conversion.\<close>

definition to_local_dt :: "tzinfo \<Rightarrow> timestamp \<Rightarrow> pyerr + datetime" where
  "to_local_dt tzlocal x =
     (let d = (case x of Arrow a \<Rightarrow> a | Plain p \<Rightarrow> p)
      in case tzinfo d of
           None \<Rightarrow> astimezone (d\<lparr>tzinfo := Some tz_UTC\<rparr>) tz_UTC tzlocal
         | Some z \<Rightarrow> astimezone d z tzlocal)"

text \<open>The tuple appended to \<open>events\<close>: \<open>(s, t, e.name, e.all_day, location)\<close>.\<close>

type_synonym event = "datetime \<times> datetime \<times> pystr option \<times> bool \<times> pystr option"

text \<open>Lines 129-130 and the tuple of line 133. \<open>e.end or e.begin\<close> is \<open>e.begin\<close>
  exactly when \<open>e.end\<close> is \<open>None\<close> (an Arrow object or a datetime is never falsy).\<close>

definition normalize_event :: "tzinfo \<Rightarrow> raw_event \<Rightarrow> timestamp \<Rightarrow> pyerr + event" where
  "normalize_event tzlocal e b =
     bindE (to_local_dt tzlocal b) (\<lambda>s.
     bindE (to_local_dt tzlocal (case e_end e of None \<Rightarrow> b | Some x \<Rightarrow> x)) (\<lambda>t.
     Inr (s, t, e_name e, e_all_day e, e_location e)))"

text \<open>Line 132, \<open>t > start and s < end\<close>: \<open>and\<close> evaluates \<open>s < end\<close> only when
  \<open>t > start\<close> holds.\<close>

definition intersects_today :: "datetime \<Rightarrow> datetime \<Rightarrow> event \<Rightarrow> pyerr + bool" where
  "intersects_today start endt ev =
     (case ev of (s, t, _) \<Rightarrow>
        bindE (dt_gt t start) (\<lambda>c. if c then dt_lt s endt else Inr False))"

text \<open>Lines 127-133, the body of the loop over \<open>cal.events\<close>.\<close>

definition event_step ::
  "datetime \<Rightarrow> datetime \<Rightarrow> tzinfo \<Rightarrow> raw_event \<Rightarrow> event list \<Rightarrow> pyerr + event list" where
  "event_step start endt tzlocal e events =
     (case e_begin e of
        None \<Rightarrow> Inr events
      | Some b \<Rightarrow>
          bindE (normalize_event tzlocal e b) (\<lambda>ev.
          bindE (intersects_today start endt ev) (\<lambda>keep.
          Inr (if keep then events @ [ev] else events))))"

fun cal_events_loop ::
  "datetime \<Rightarrow> datetime \<Rightarrow> tzinfo \<Rightarrow> raw_event list \<Rightarrow> event list \<Rightarrow> pyerr + event list" where
  "cal_events_loop start endt tzlocal [] events = Inr events"
| "cal_events_loop start endt tzlocal (e # es) events =
     bindE (event_step start endt tzlocal e events) (cal_events_loop start endt tzlocal es)"

text \<open>Lines 116-124: the events of one source, or \<open>None\<close> where the loop says
  \<open>continue\<close> (an empty URL, or a download or parse that raises).\<close>

definition fetch_source :: "'f world \<Rightarrow> pystr option \<Rightarrow> raw_event list option" where
  "fetch_source w raw =
     (let url = clean_url raw
      in if url = [] then None else http_calendar w url)"

text \<open>Lines 115-133, the loop over \<open>urls\<close>.\<close>

fun urls_loop ::
  "'f world \<Rightarrow> datetime \<Rightarrow> datetime \<Rightarrow> tzinfo \<Rightarrow> pystr option list \<Rightarrow> event list
     \<Rightarrow> pyerr + event list" where
  "urls_loop w start endt tzlocal [] events = Inr events"
| "urls_loop w start endt tzlocal (raw # rest) events =
     (case fetch_source w raw of
        None \<Rightarrow> urls_loop w start endt tzlocal rest events
      | Some cal \<Rightarrow>
          bindE (cal_events_loop start endt tzlocal cal events)
                (urls_loop w start endt tzlocal rest))"

text \<open>\<open>events.sort(key=lambda x: x[0])\<close> is a stable sort on the start; every start in
  the list carries the tzinfo object \<open>tzlocal\<close>, so the keys are compared on their wall
  clocks.\<close>

definition fetch_ics_events_today ::
  "'f world \<Rightarrow> pystr option list \<Rightarrow> pystr \<Rightarrow> pyerr + event list" where
  "fetch_ics_events_today w urls tzname =
     (let tzlocal = tz_gettz w tzname
      in bindE (today_window w tzlocal) (\<lambda>(start, endt).
         bindE (urls_loop w start endt tzlocal urls []) (\<lambda>events.
         Inr (sort_key (\<lambda>x. wall (fst x)) events))))"

section \<open>format\_agenda\<close>

text \<open>\<open>str(n)\<close> for an int, and the two-digit fields of \<open>strftime("%H:%M")\<close>.\<close>

fun digits :: "nat \<Rightarrow> pystr" where
  "digits n = (if n < 10 then [48 + n] else digits (n div 10) @ [48 + n mod 10])"

declare digits.simps [simp del]

definition str_int :: "int \<Rightarrow> pystr" where
  "str_int i = (if i < 0 then 45 # digits (nat (- i)) else digits (nat i))"

definition pad2 :: "int \<Rightarrow> pystr" where
  "pad2 i = (if i < 10 then 48 # str_int i else str_int i)"

definition strftime_HM :: "datetime \<Rightarrow> pystr" where
  "strftime_HM d = pad2 (hour d) @ asc '':'' @ pad2 (minute d)"

text \<open>What an f-string prints for a value that is a \<open>str\<close> or \<open>None\<close>.\<close>

definition str_opt :: "pystr option \<Rightarrow> pystr" where
  "str_opt x = (case x of None \<Rightarrow> asc ''None'' | Some s \<Rightarrow> s)"

definition join :: "pystr \<Rightarrow> pystr list \<Rightarrow> pystr" where
  "join sep xs = (case xs of [] \<Rightarrow> [] | x # rest \<Rightarrow> x @ concat (map (\<lambda>y. sep @ y) rest))"

text \<open>The calendar glyph is U+1F5D3 U+FE0F, the bullet U+2022, the dash U+2014, and the
  accented i of "dia" U+00ED.\<close>

definition agenda_header :: pystr where
  "agenda_header = [128467, 65039] @ asc '' *Agenda de hoy*''"

definition emdash :: pystr where
  "emdash = [8212]"

text \<open>Lines 147-149. \<open>(t - s).total_seconds() // 60\<close> is a float floor division; it is
  the exact floor of the minutes while the difference is below 2^53 microseconds (about
  285 years), which is where the model keeps it. \<open>divmod\<close> rounds towards minus
  infinity, as \<open>div\<close> and \<open>mod\<close> on \<open>int\<close> do.\<close>

definition duration_str :: "int \<Rightarrow> pystr" where
  "duration_str delta =
     (let mins = delta div US_PER_MINUTE; hh = mins div 60; mm = mins mod 60
      in if hh \<noteq> 0 then str_int hh @ asc ''h '' @ str_int mm @ asc ''m''
         else str_int mm @ asc ''m'')"

text \<open>Lines 143-151, the line of one event.\<close>

definition agenda_line :: "event \<Rightarrow> pyerr + pystr" where
  "agenda_line ev =
     (case ev of (s, t, name, all_day, loc) \<Rightarrow>
        if all_day
        then Inr ([8226] @ asc '' (Todo el d'' @ [237] @ asc ''a) '' @ emdash @ asc '' *''
                  @ str_opt name @ asc ''*'')
        else let h1 = strftime_HM s
             in bindE (dt_sub t s) (\<lambda>delta.
                let dstr = duration_str delta;
                    whre = (case loc of None \<Rightarrow> [] | Some l \<Rightarrow> if l = [] then [] else asc '' @ '' @ l)
                in Inr (h1 @ asc '' ('' @ dstr @ asc '') '' @ emdash @ asc '' *''
                        @ str_opt name @ asc ''*'' @ whre)))"

fun agenda_lines :: "event list \<Rightarrow> pystr list \<Rightarrow> pyerr + pystr list" where
  "agenda_lines [] lines = Inr lines"
| "agenda_lines (ev # rest) lines =
     bindE (agenda_line ev) (\<lambda>l. agenda_lines rest (lines @ [l]))"

definition format_agenda :: "event list \<Rightarrow> pyerr + pystr" where
  "format_agenda events =
     (if events = [] then Inr (agenda_header @ [10] @ asc ''(No hay eventos)'' @ [10])
      else bindE (agenda_lines events [agenda_header]) (\<lambda>lines.
           Inr (join [10] lines @ [10])))"

section \<open>nice\_weather\_text\_2days\<close>

definition WMO_DESC :: "(int \<times> pystr \<times> pystr) list" where
  "WMO_DESC =
     [(0, (asc ''Despejado'', [9728, 65039])),
      (1, (asc ''Mayormente despejado'', [127780, 65039])),
      (2, (asc ''Parcialmente nublado'', [9925])),
      (3, (asc ''Nublado'', [9729, 65039])),
      (45, (asc ''Niebla'', [127787, 65039])),
      (48, (asc ''Niebla escarchada'', [127787, 65039])),
      (51, (asc ''Llovizna ligera'', [127782, 65039])),
      (53, (asc ''Llovizna'', [127782, 65039])),
      (55, (asc ''Llovizna fuerte'', [127783, 65039])),
      (61, (asc ''Lluvia ligera'', [127783, 65039])),
      (63, (asc ''Lluvia'', [127783, 65039])),
      (65, (asc ''Lluvia fuerte'', [127783, 65039])),
      (71, (asc ''Nieve ligera'', [127784, 65039])),
      (73, (asc ''Nieve'', [127784, 65039])),
      (75, (asc ''Nieve fuerte'', [10052, 65039])),
      (80, (asc ''Chubascos'', [127783, 65039])),
      (81, (asc ''Chubascos'', [127783, 65039])),
      (82, (asc ''Chubascos fuertes'', [9928, 65039])),
      (95, (asc ''Tormentas'', [9928, 65039])),
      (96, (asc ''Tormentas con granizo'', [9928, 65039])),
      (99, (asc ''Tormentas con granizo'', [9928, 65039]))]"

text \<open>\<open>x[key]\<close> with a string key: only a dict can be read that way.\<close>

definition getitem_key :: "json \<Rightarrow> pystr \<Rightarrow> pyerr + json" where
  "getitem_key x k =
     (case x of
        JDict kvs \<Rightarrow> (case map_of kvs k of None \<Rightarrow> Inl KeyError | Some v \<Rightarrow> Inr v)
      | _ \<Rightarrow> Inl TypeError)"

text \<open>\<open>x[i]\<close> with \<open>i\<close> 0 or 1: an element of a list, a character of a string; a dict
  decoded from JSON has no integer key.\<close>

definition getitem_idx :: "json \<Rightarrow> nat \<Rightarrow> pyerr + json" where
  "getitem_idx x i =
     (case x of
        JList xs \<Rightarrow> if i < length xs then Inr (xs ! i) else Inl IndexError
      | JStr cs \<Rightarrow> if i < length cs then Inr (JStr [cs ! i]) else Inl IndexError
      | JDict _ \<Rightarrow> Inl KeyError
      | _ \<Rightarrow> Inl TypeError)"

text \<open>\<open>x[-5:]\<close>: the last five items of a string or a list (all of it when shorter).
  A dict rejects the slice (\<open>TypeError\<close>, \<open>KeyError\<close> from Python 3.12 on).\<close>

definition slice_last5 :: "json \<Rightarrow> pyerr + json" where
  "slice_last5 x =
     (case x of
        JStr cs \<Rightarrow> Inr (JStr (drop (length cs - 5) cs))
      | JList xs \<Rightarrow> Inr (JList (drop (length xs - 5) xs))
      | _ \<Rightarrow> Inl TypeError)"

text \<open>\<open>WMO_DESC.get(wcode, ("", ""))\<close>. The key is hashed first: a list or a dict is
  unhashable and raises \<open>TypeError\<close>. \<open>True\<close> and \<open>False\<close> are the keys 1 and 0, and a
  float equal to an int is that key.\<close>

definition wmo_get :: "json \<Rightarrow> pyerr + pystr \<times> pystr" where
  "wmo_get wcode =
     (let find = (\<lambda>k. case map_of WMO_DESC k of None \<Rightarrow> ([], []) | Some v \<Rightarrow> v)
      in case wcode of
           JInt i \<Rightarrow> Inr (find i)
         | JBool b \<Rightarrow> Inr (find (if b then 1 else 0))
         | JFloat (Finite r) \<Rightarrow> Inr (if of_int \<lfloor>r\<rfloor> = r then find \<lfloor>r\<rfloor> else ([], []))
         | JFloat _ \<Rightarrow> Inr ([], [])
         | JNull \<Rightarrow> Inr ([], [])
         | JStr _ \<Rightarrow> Inr ([], [])
         | JList _ \<Rightarrow> Inl TypeError
         | JDict _ \<Rightarrow> Inl TypeError)"

text \<open>What an f-string prints for a JSON value.\<close>

definition py_format :: "'f world \<Rightarrow> json \<Rightarrow> pystr" where
  "py_format w v =
     (case v of
        JStr cs \<Rightarrow> cs
      | JNull \<Rightarrow> asc ''None''
      | JBool b \<Rightarrow> (if b then asc ''True'' else asc ''False'')
      | JInt i \<Rightarrow> str_int i
      | _ \<Rightarrow> py_repr w v)"

text \<open>Lines 82-87, the body of the \<open>try\<close>.\<close>

definition day_fields :: "json \<Rightarrow> nat \<Rightarrow> pyerr + json \<times> json \<times> json \<times> json \<times> json \<times> json" where
  "day_fields data idx =
     bindE (bindE (getitem_key data (asc ''temperature_2m_min'')) (\<lambda>a. getitem_idx a idx)) (\<lambda>tmin.
     bindE (bindE (getitem_key data (asc ''temperature_2m_max'')) (\<lambda>a. getitem_idx a idx)) (\<lambda>tmax.
     bindE (bindE (getitem_key data (asc ''precipitation_probability_max'')) (\<lambda>a. getitem_idx a idx)) (\<lambda>pp.
     bindE (bindE (bindE (getitem_key data (asc ''sunrise'')) (\<lambda>a. getitem_idx a idx)) slice_last5) (\<lambda>sr.
     bindE (bindE (bindE (getitem_key data (asc ''sunset'')) (\<lambda>a. getitem_idx a idx)) slice_last5) (\<lambda>ss.
     bindE (bindE (getitem_key data (asc ''weathercode'')) (\<lambda>a. getitem_idx a idx)) (\<lambda>wcode.
     Inr (tmin, tmax, pp, sr, ss, wcode)))))))"

definition weather_header :: "pystr \<Rightarrow> pystr" where
  "weather_header city_shown =
     [127782, 65039] @ asc '' *Clima '' @ [8212] @ asc '' '' @ city_shown @ asc ''*''"

text \<open>Lines 91-95, the paragraph of one day.\<close>

definition day_paragraph ::
  "'f world \<Rightarrow> pystr \<Rightarrow> json \<times> json \<times> json \<times> json \<times> json \<times> json \<Rightarrow> pystr \<times> pystr \<Rightarrow> pystr" where
  "day_paragraph w label flds found =
     (case flds of (tmin, tmax, pp, sr, ss, wcode) \<Rightarrow>
      case found of (desc, emo) \<Rightarrow>
        [10] @ asc ''*'' @ label @ asc ''* '' @ [8212] @ asc '' '' @ emo @ asc '' '' @ desc
        @ [10] @ asc ''Temp: '' @ py_format w tmin @ [176] @ asc ''C '' @ [8211] @ asc '' ''
        @ py_format w tmax @ [176] @ asc ''C '' @ [8226] @ asc '' Precip.: '' @ py_format w pp
        @ asc ''%'' @ [10] @ asc ''Amanecer: '' @ py_format w sr
        @ asc ''  Atardecer: '' @ py_format w ss)"

text \<open>Lines 80-95, the loop over the two days. The \<open>except\<close> clause names
  \<open>IndexError\<close>, \<open>KeyError\<close> and \<open>TypeError\<close>; the lookup of the weather code is after
  the \<open>try\<close> statement.\<close>

fun weather_days ::
  "'f world \<Rightarrow> json \<Rightarrow> (nat \<times> pystr) list \<Rightarrow> pystr list \<Rightarrow> pyerr + pystr list" where
  "weather_days w data [] lines = Inr lines"
| "weather_days w data ((idx, label) # rest) lines =
     (case day_fields data idx of
        Inl e \<Rightarrow>
          if e = IndexError \<or> e = KeyError \<or> e = TypeError
          then weather_days w data rest lines
          else Inl e
      | Inr (tmin, tmax, pp, sr, ss, wcode) \<Rightarrow>
          bindE (wmo_get wcode) (\<lambda>found.
          weather_days w data rest
            (lines @ [day_paragraph w label (tmin, tmax, pp, sr, ss, wcode) found])))"

definition nice_weather_text_2days :: "'f world \<Rightarrow> pystr \<Rightarrow> json \<Rightarrow> pyerr + pystr" where
  "nice_weather_text_2days w city_shown data =
     bindE (weather_days w data [(0, asc ''Hoy''), (1, asc ''Ma'' @ [241] @ asc ''ana'')]
              [weather_header city_shown])
       (\<lambda>lines. Inr (join [10] lines))"

section \<open>send\_telegram and run\<close>

text \<open>Truthiness of an optional string: \<open>None\<close> and \<open>""\<close> are falsy.\<close>

definition truthy :: "pystr option \<Rightarrow> bool" where
  "truthy x = (case x of None \<Rightarrow> False | Some s \<Rightarrow> s \<noteq> [])"

text \<open>The messages delivered so far are the state; a send appends to them.\<close>

definition send_telegram :: "'f world \<Rightarrow> pystr list \<Rightarrow> pystr \<Rightarrow> pyerr + pystr list" where
  "send_telegram w outbox text =
     (if \<not> (truthy (BOT_TOKEN w) \<and> truthy (CHAT_ID w)) then Inl RuntimeError
      else case bot_send_message w (length outbox) text of
             Some e \<Rightarrow> Inl e
           | None \<Rightarrow> Inr (outbox @ [text]))"

text \<open>\<open>CITY = os.getenv("CITY", "Agua de Oro, Cordoba, Argentina")\<close>\<close>

definition CITY :: "'f world \<Rightarrow> pystr" where
  "CITY w = (case env_CITY w of None \<Rightarrow> asc ''Agua de Oro, Cordoba, Argentina'' | Some c \<Rightarrow> c)"

text \<open>Lines 162-167.\<close>

definition coordinates :: "'f world \<Rightarrow> pyerr + 'f \<times> 'f \<times> pystr" where
  "coordinates w =
     (if truthy (LAT w) \<and> truthy (LON w)
      then case py_float w (str_opt (LAT w)) of
             None \<Rightarrow> Inl ValueError
           | Some lat \<Rightarrow>
               (case py_float w (str_opt (LON w)) of
                  None \<Rightarrow> Inl ValueError
                | Some lon \<Rightarrow>
                    let city_shown = (case env_CITY w of None \<Rightarrow> [] | Some c \<Rightarrow> c)
                    in Inr (lat, lon,
                            if city_shown = [] then fmt_4f w lat @ asc '','' @ fmt_4f w lon
                            else city_shown))
      else geocode w (CITY w))"

text \<open>\<open>x >= 50\<close> on a JSON value: numbers compare (a bool as 0 or 1, NaN with nothing),
  anything else raises \<open>TypeError\<close>.\<close>

definition py_ge_50 :: "json \<Rightarrow> pyerr + bool" where
  "py_ge_50 x =
     (case x of
        JInt i \<Rightarrow> Inr (i \<ge> 50)
      | JBool b \<Rightarrow> Inr False
      | JFloat (Finite r) \<Rightarrow> Inr (r \<ge> 50)
      | JFloat PosInf \<Rightarrow> Inr True
      | JFloat _ \<Rightarrow> Inr False
      | _ \<Rightarrow> Inl TypeError)"

text \<open>\<open>x is not None and x >= 50\<close>\<close>

definition present_ge_50 :: "json \<Rightarrow> pyerr + bool" where
  "present_ge_50 x = (case x of JNull \<Rightarrow> Inr False | _ \<Rightarrow> py_ge_50 x)"

text \<open>Lines 175-177, the body of the \<open>try\<close> up to the value of the condition.\<close>

definition rain_check :: "json \<Rightarrow> pyerr + bool" where
  "rain_check daily =
     bindE (bindE (getitem_key daily (asc ''precipitation_probability_max'')) (\<lambda>a. getitem_idx a 0)) (\<lambda>pp_hoy.
     bindE (bindE (getitem_key daily (asc ''precipitation_probability_max'')) (\<lambda>a. getitem_idx a 1)) (\<lambda>pp_man.
     bindE (present_ge_50 pp_hoy) (\<lambda>c. if c then Inr True else present_ge_50 pp_man)))"

definition rain_banner :: pystr where
  "rain_banner = [9888, 65039] @ asc '' *Probabilidad alta de lluvia ('' @ [8805]
     @ asc ''50%)*. Consider'' @ [225] @ asc '' llevar paraguas.'' @ [10, 10]"

text \<open>Lines 174-180: \<open>except Exception: pass\<close> leaves \<open>msg\<close> as it was.\<close>

definition with_rain_alert :: "json \<Rightarrow> pystr \<Rightarrow> pystr" where
  "with_rain_alert daily msg =
     (case rain_check daily of
        Inl _ \<Rightarrow> msg
      | Inr c \<Rightarrow> if c then rain_banner @ msg else msg)"

text \<open>Lines 162-171, everything before the first send.\<close>

definition compose :: "'f world \<Rightarrow> pyerr + json \<times> pystr" where
  "compose w =
     bindE (coordinates w) (\<lambda>(lat, lon, city_shown).
     bindE (fetch_weather w lat lon (TZ_NAME w)) (\<lambda>daily.
     bindE (fetch_ics_events_today w (map Some (ICAL_URLS w)) (TZ_NAME w)) (\<lambda>agenda.
     bindE (nice_weather_text_2days w city_shown daily) (\<lambda>wtext.
     bindE (format_agenda agenda) (\<lambda>atext.
     Inr (daily, wtext @ [10, 10] @ atext))))))"

text \<open>\<open>run\<close> returns the exception it ends with, if any, and the messages delivered.
  Line 172 sends \<open>msg\<close>; lines 174-180 may put the banner in front of it; line 182 sends
  \<open>msg\<close> again.\<close>

definition run :: "'f world \<Rightarrow> pyerr option \<times> pystr list" where
  "run w =
     (case compose w of
        Inl e \<Rightarrow> (Some e, [])
      | Inr (daily, msg) \<Rightarrow>
          (case send_telegram w [] msg of
             Inl e \<Rightarrow> (Some e, [])
           | Inr outbox1 \<Rightarrow>
               (case send_telegram w outbox1 (with_rain_alert daily msg) of
                  Inl e \<Rightarrow> (Some e, outbox1)
                | Inr outbox2 \<Rightarrow> (None, outbox2))))"

section \<open>Example inputs\<close>

text \<open>
  A zone three hours behind UTC all year (as America/Argentina/Cordoba is today), and
  the calendar day 2024-06-15, which is day 739051 counted from 0001-01-01.
\<close>

definition tz_minus3 :: tzinfo where
  "tz_minus3 = \<lparr>tzid = 1, utcoffset = (\<lambda>_. - 3 * US_PER_HOUR),
                 utcoffset_utc = (\<lambda>_. - 3 * US_PER_HOUR)\<rparr>"

definition clock :: "int \<Rightarrow> int \<Rightarrow> int \<Rightarrow> int" where
  "clock day h m = day * US_PER_DAY + h * US_PER_HOUR + m * US_PER_MINUTE"

definition utc_at :: "int \<Rightarrow> int \<Rightarrow> int \<Rightarrow> timestamp" where
  "utc_at day h m = Arrow \<lparr>wall = clock day h m, tzinfo = Some tz_UTC\<rparr>"

definition local_at :: "int \<Rightarrow> int \<Rightarrow> int \<Rightarrow> datetime" where
  "local_at day h m = \<lparr>wall = clock day h m, tzinfo = Some tz_minus3\<rparr>"

text \<open>Local 22:00 to 02:00 of the next day: it starts before the window's end and
  ends after it.\<close>

definition ev_guardia :: raw_event where
  "ev_guardia = \<lparr>e_begin = Some (utc_at 739052 1 0), e_end = Some (utc_at 739052 5 0),
                  e_name = Some (asc ''Guardia''), e_all_day = False, e_location = None\<rparr>"

text \<open>Local 09:00 to 10:30, ninety minutes, with a location.\<close>

definition ev_reunion :: raw_event where
  "ev_reunion = \<lparr>e_begin = Some (utc_at 739051 12 0), e_end = Some (utc_at 739051 13 30),
                  e_name = Some (asc ''Reunion''), e_all_day = False,
                  e_location = Some (asc ''Oficina'')\<rparr>"

text \<open>Local 21:00 of the day before to 00:00: it ends exactly at the window's start.\<close>

definition ev_cena :: raw_event where
  "ev_cena = \<lparr>e_begin = Some (utc_at 739051 0 0), e_end = Some (utc_at 739051 3 0),
               e_name = Some (asc ''Cena''), e_all_day = False, e_location = None\<rparr>"

text \<open>Local 00:00 to 02:00 of the next day: it starts exactly at the window's end.\<close>

definition ev_viaje :: raw_event where
  "ev_viaje = \<lparr>e_begin = Some (utc_at 739052 3 0), e_end = Some (utc_at 739052 5 0),
                e_name = Some (asc ''Viaje''), e_all_day = False, e_location = None\<rparr>"

text \<open>Local 11:00 to 11:45, forty-five minutes.\<close>

definition ev_clase :: raw_event where
  "ev_clase = \<lparr>e_begin = Some (utc_at 739051 14 0), e_end = Some (utc_at 739051 14 45),
                e_name = Some (asc ''Clase''), e_all_day = False, e_location = None\<rparr>"

text \<open>A begin without zone (18:00, read as UTC, local 15:00) and no end.\<close>

definition ev_aviso :: raw_event where
  "ev_aviso = \<lparr>e_begin = Some (Plain \<lparr>wall = clock 739051 18 0, tzinfo = None\<rparr>),
                e_end = None, e_name = Some (asc ''Aviso''), e_all_day = False,
                e_location = None\<rparr>"

text \<open>An event without begin.\<close>

definition ev_vacio :: raw_event where
  "ev_vacio = \<lparr>e_begin = None, e_end = None, e_name = Some (asc ''Vacio''),
                e_all_day = False, e_location = None\<rparr>"


definition demo_forecast :: json where
  "demo_forecast = JDict
     [(asc ''temperature_2m_max'', JList [JInt 18, JInt 21]),
      (asc ''temperature_2m_min'', JList [JInt 7, JInt 9]),
      (asc ''precipitation_probability_max'', JList [JNull, JInt 80]),
      (asc ''sunrise'', JList [JStr (asc ''2024-06-15T08:12''), JStr (asc ''2024-06-16T08:12'')]),
      (asc ''sunset'', JList [JStr (asc ''2024-06-15T18:19''), JStr (asc ''2024-06-16T18:19'')]),
      (asc ''weathercode'', JList [JInt 3, JInt 95])]"

text \<open>The same forecast with a JSON array where today's weather code should be.\<close>

definition bad_forecast :: json where
  "bad_forecast = JDict
     [(asc ''temperature_2m_max'', JList [JInt 18, JInt 21]),
      (asc ''temperature_2m_min'', JList [JInt 7, JInt 9]),
      (asc ''precipitation_probability_max'', JList [JNull, JInt 80]),
      (asc ''sunrise'', JList [JStr (asc ''2024-06-15T08:12''), JStr (asc ''2024-06-16T08:12'')]),
      (asc ''sunset'', JList [JStr (asc ''2024-06-15T18:19''), JStr (asc ''2024-06-16T18:19'')]),
      (asc ''weathercode'', JList [JList [JInt 3], JInt 95])]"

text \<open>A run at local 08:30 on 2024-06-15 with three calendar URLs, the second of which
  cannot be fetched; every message is delivered.\<close>

definition demo_world :: "rat world" where
  "demo_world =
     \<lparr>BOT_TOKEN = Some (asc ''123:abc''), CHAT_ID = Some (asc ''42''),
      env_CITY = Some (asc ''Agua de Oro''), TZ_NAME = asc ''America/Argentina/Cordoba'',
      ICAL_URLS = [asc ''https://a/c.ics'', asc ''https://x/c.ics'', asc ''https://b/c.ics''],
      LAT = Some (asc ''-31.06''), LON = Some (asc ''-64.30''),
      tz_gettz = (\<lambda>_. tz_minus3),
      datetime_now = (\<lambda>_. clock 739051 8 30),
      http_calendar = (\<lambda>url.
         if url = asc ''https://a/c.ics'' then Some [ev_guardia, ev_reunion, ev_cena, ev_vacio]
         else if url = asc ''https://b/c.ics'' then Some [ev_clase, ev_viaje, ev_aviso]
         else None),
      py_float = (\<lambda>s. if s = asc ''-31.06'' then Some (- 3106 / 100)
                       else if s = asc ''-64.30'' then Some (- 6430 / 100) else None),
      fmt_4f = (\<lambda>_. asc ''?''),
      geocode = (\<lambda>_. Inl ExternalError),
      fetch_weather = (\<lambda>_ _ _. Inr demo_forecast),
      py_repr = (\<lambda>_. asc ''?''),
      bot_send_message = (\<lambda>_ _. None)\<rparr>"


text \<open>The same run when the forecast is \<open>bad_forecast\<close>.\<close>

definition bad_forecast_world :: "rat world" where
  "bad_forecast_world = demo_world\<lparr>fetch_weather := (\<lambda>_ _ _. Inr bad_forecast)\<rparr>"

text \<open>The example events after normalisation to the zone three hours behind UTC, and
  the agenda of the example run.\<close>

definition n_guardia :: event where
  "n_guardia = (local_at 739051 22 0, local_at 739052 2 0, Some (asc ''Guardia''), False, None)"

definition n_reunion :: event where
  "n_reunion = (local_at 739051 9 0, local_at 739051 10 30, Some (asc ''Reunion''), False,
                Some (asc ''Oficina''))"

definition n_cena :: event where
  "n_cena = (local_at 739050 21 0, local_at 739051 0 0, Some (asc ''Cena''), False, None)"

definition n_viaje :: event where
  "n_viaje = (local_at 739052 0 0, local_at 739052 2 0, Some (asc ''Viaje''), False, None)"

definition n_clase :: event where
  "n_clase = (local_at 739051 11 0, local_at 739051 11 45, Some (asc ''Clase''), False, None)"

definition n_aviso :: event where
  "n_aviso = (local_at 739051 15 0, local_at 739051 15 0, Some (asc ''Aviso''), False, None)"

definition demo_agenda :: "event list" where
  "demo_agenda = [n_reunion, n_clase, n_aviso, n_guardia]"


definition n_turno :: event where
  "n_turno = (local_at 739051 10 0, local_at 739051 9 0, Some (asc ''Turno''), False, None)"


text \<open>The two texts of the example run.\<close>

definition demo_agenda_text :: pystr where
  "demo_agenda_text =
     agenda_header @ [10]
     @ asc ''09:00 (1h 30m) '' @ emdash @ asc '' *Reunion* @ Oficina'' @ [10]
     @ asc ''11:00 (45m) '' @ emdash @ asc '' *Clase*'' @ [10]
     @ asc ''15:00 (0m) '' @ emdash @ asc '' *Aviso*'' @ [10]
     @ asc ''22:00 (4h 0m) '' @ emdash @ asc '' *Guardia*'' @ [10]"

definition demo_weather_text :: pystr where
  "demo_weather_text =
     weather_header (asc ''Agua de Oro'') @ [10, 10]
     @ asc ''*Hoy* '' @ emdash @ asc '' '' @ [9729, 65039] @ asc '' Nublado'' @ [10]
     @ asc ''Temp: 7'' @ [176] @ asc ''C '' @ [8211] @ asc '' 18'' @ [176] @ asc ''C ''
     @ [8226] @ asc '' Precip.: None%'' @ [10]
     @ asc ''Amanecer: 08:12  Atardecer: 18:19'' @ [10, 10]
     @ asc ''*Ma'' @ [241] @ asc ''ana* '' @ emdash @ asc '' '' @ [9928, 65039]
     @ asc '' Tormentas'' @ [10]
     @ asc ''Temp: 9'' @ [176] @ asc ''C '' @ [8211] @ asc '' 21'' @ [176] @ asc ''C ''
     @ [8226] @ asc '' Precip.: 80%'' @ [10]
     @ asc ''Amanecer: 08:12  Atardecer: 18:19''"

definition demo_msg :: pystr where
  "demo_msg = demo_weather_text @ [10, 10] @ demo_agenda_text"

text \<open>
  A zone that leaves daylight saving time on 2024-10-27 (day 739185) at 01:00 UTC, when
  its clocks go from 03:00 back to 02:00, as Europe/Madrid does; an event of forty
  minutes from 00:30 to 01:10 UTC, local 02:30 before the change to local 02:10 after
  it; and a run at local 08:00 of that day whose only calendar holds it.
\<close>

definition tz_dst :: tzinfo where
  "tz_dst = \<lparr>tzid = 2,
              utcoffset = (\<lambda>w. if w < clock 739185 3 0 then 2 * US_PER_HOUR else US_PER_HOUR),
              utcoffset_utc = (\<lambda>u. if u < clock 739185 1 0 then 2 * US_PER_HOUR
                                    else US_PER_HOUR)\<rparr>"

definition ev_tren :: raw_event where
  "ev_tren = \<lparr>e_begin = Some (utc_at 739185 0 30), e_end = Some (utc_at 739185 1 10),
               e_name = Some (asc ''Tren''), e_all_day = False, e_location = None\<rparr>"

definition n_tren :: event where
  "n_tren = (\<lparr>wall = clock 739185 2 30, tzinfo = Some tz_dst\<rparr>,
             \<lparr>wall = clock 739185 2 10, tzinfo = Some tz_dst\<rparr>,
             Some (asc ''Tren''), False, None)"

definition tren_world :: "rat world" where
  "tren_world = demo_world\<lparr>tz_gettz := (\<lambda>_. tz_dst),
      datetime_now := (\<lambda>_. clock 739185 8 0),
      http_calendar := (\<lambda>url.
        if url = asc ''https://a/c.ics'' then Some [ev_tren] else None)\<rparr>"

section \<open>Auxiliary facts\<close>

lemma bindE_simps [simp]:
  "bindE (Inl e) f = Inl e" "bindE (Inr x) f = f x"
  by (simp_all add: bindE_def)

lemma bindE_eq_Inr: "bindE m f = Inr y \<longleftrightarrow> (\<exists>x. m = Inr x \<and> f x = Inr y)"
  by (cases m) simp_all


lemma today_window_eq:
  "today_window w tz = Inr (start, endt) \<Longrightarrow>
     start = \<lparr>wall = (datetime_now w tz div US_PER_DAY) * US_PER_DAY, tzinfo = Some tz\<rparr>
     \<and> endt = \<lparr>wall = (datetime_now w tz div US_PER_DAY) * US_PER_DAY + US_PER_DAY, tzinfo = Some tz\<rparr>"
  by (auto simp: today_window_def replace_time_def add_timedelta_def Let_def split: if_splits)

lemma add_timedelta_tz: "add_timedelta d delta = Inr d' \<Longrightarrow> tzinfo d' = tzinfo d"
  by (auto simp: add_timedelta_def Let_def split: if_splits)

lemma astimezone_tz:
  "astimezone d mytz tz = Inr d' \<Longrightarrow> tzinfo d = Some mytz \<Longrightarrow>
     \<exists>z. tzinfo d' = Some z \<and> tzid z = tzid tz"
  by (auto simp: astimezone_def bindE_eq_Inr split: if_splits dest!: add_timedelta_tz)

lemma to_local_dt_tz:
  "to_local_dt tzl x = Inr d \<Longrightarrow> \<exists>z. tzinfo d = Some z \<and> tzid z = tzid tzl"
  by (auto simp: to_local_dt_def Let_def split: option.splits dest!: astimezone_tz)

lemma dt_sub_same_zone:
  "tzinfo a = Some za \<Longrightarrow> tzinfo b = Some zb \<Longrightarrow> tzid za = tzid zb \<Longrightarrow>
     dt_sub a b = Inr (wall a - wall b)"
  by (simp add: dt_sub_def)

lemma normalize_event_tz:
  assumes "normalize_event tzl e b = Inr (s, t, r)"
  shows "\<exists>zs zt. tzinfo s = Some zs \<and> tzinfo t = Some zt \<and> tzid zs = tzid tzl \<and> tzid zt = tzid tzl"
  using assms by (auto simp: normalize_event_def bindE_eq_Inr dest!: to_local_dt_tz)

lemma intersects_today_normalized:
  assumes "normalize_event tzl e b = Inr (s, t, r)"
    and "tzinfo start = Some tzl" and "tzinfo endt = Some tzl"
  shows "intersects_today start endt (s, t, r) = Inr (wall start < wall t \<and> wall s < wall endt)"
proof -
  from normalize_event_tz[OF assms(1)] obtain zs zt where
    z: "tzinfo s = Some zs" "tzinfo t = Some zt" "tzid zs = tzid tzl" "tzid zt = tzid tzl"
    by blast
  have "dt_sub t start = Inr (wall t - wall start)"
    using z assms(2) by (simp add: dt_sub_same_zone)
  moreover have "dt_sub s endt = Inr (wall s - wall endt)"
    using z assms(3) by (simp add: dt_sub_same_zone)
  ultimately show ?thesis
    by (simp add: intersects_today_def dt_gt_def dt_lt_def)
qed

text \<open>One pass of the loop body, case by case.\<close>

lemma event_step_no_begin: "e_begin e = None \<Longrightarrow> event_step start endt tzl e acc = Inr acc"
  by (simp add: event_step_def)

lemma event_step_fail:
  "e_begin e = Some b \<Longrightarrow> normalize_event tzl e b = Inl err \<Longrightarrow>
     event_step start endt tzl e acc = Inl err"
  by (simp add: event_step_def)

lemma event_step_ok:
  assumes "e_begin e = Some b" "normalize_event tzl e b = Inr (s, t, r)"
    and "tzinfo start = Some tzl" and "tzinfo endt = Some tzl"
  shows "event_step start endt tzl e acc =
     Inr (if wall start < wall t \<and> wall s < wall endt then acc @ [(s, t, r)] else acc)"
  using assms intersects_today_normalized[OF assms(2,3,4)]
  by (simp add: event_step_def)

lemma cal_events_loop_set:
  assumes "tzinfo start = Some tzl" and "tzinfo endt = Some tzl"
  shows "cal_events_loop start endt tzl es acc = Inr res \<Longrightarrow>
     set res = set acc \<union> {(s, t, r). \<exists>e\<in>set es. \<exists>b. e_begin e = Some b
        \<and> normalize_event tzl e b = Inr (s, t, r) \<and> wall start < wall t \<and> wall s < wall endt}"
proof (induction es arbitrary: acc)
  case Nil
  then show ?case by simp
next
  case (Cons e es)
  show ?case
  proof (cases "e_begin e")
    case None
    with Cons.prems have "cal_events_loop start endt tzl es acc = Inr res"
      by (simp add: event_step_no_begin)
    from Cons.IH[OF this] None show ?thesis by auto
  next
    case (Some b)
    show ?thesis
    proof (cases "normalize_event tzl e b")
      case (Inl err)
      with Some Cons.prems show ?thesis by (simp add: event_step_fail)
    next
      case (Inr ev)
      obtain s t r where ev: "ev = (s, t, r)" by (cases ev) auto
      let ?acc' = "if wall start < wall t \<and> wall s < wall endt then acc @ [(s, t, r)] else acc"
      have step: "event_step start endt tzl e acc = Inr ?acc'"
        using event_step_ok[OF Some _ assms] Inr ev by simp
      with Cons.prems have "cal_events_loop start endt tzl es ?acc' = Inr res" by simp
      from Cons.IH[OF this] Some Inr ev show ?thesis by (auto split: if_splits)
    qed
  qed
qed


lemma urls_loop_set:
  assumes "tzinfo start = Some tzl" and "tzinfo endt = Some tzl"
  shows "urls_loop w start endt tzl urls acc = Inr res \<Longrightarrow>
     set res = set acc \<union> {(s, t, r). \<exists>raw\<in>set urls. \<exists>cal. fetch_source w raw = Some cal \<and>
        (\<exists>e\<in>set cal. \<exists>b. e_begin e = Some b
        \<and> normalize_event tzl e b = Inr (s, t, r) \<and> wall start < wall t \<and> wall s < wall endt)}"
proof (induction urls arbitrary: acc)
  case Nil
  then show ?case by simp
next
  case (Cons raw rest)
  show ?case
  proof (cases "fetch_source w raw")
    case None
    with Cons.prems have "urls_loop w start endt tzl rest acc = Inr res" by simp
    from Cons.IH[OF this] None show ?thesis by auto
  next
    case (Some cal)
    with Cons.prems obtain mid where
      m: "cal_events_loop start endt tzl cal acc = Inr mid"
      and r: "urls_loop w start endt tzl rest mid = Inr res"
      by (auto simp: bindE_eq_Inr)
    from cal_events_loop_set[OF assms m] Cons.IH[OF r] Some show ?thesis by auto
  qed
qed


lemma urls_loop_append:
  "urls_loop w start endt tzl (xs @ ys) acc =
     bindE (urls_loop w start endt tzl xs acc) (urls_loop w start endt tzl ys)"
proof (induction xs arbitrary: acc)
  case Nil
  then show ?case by simp
next
  case (Cons raw rest)
  show ?case
  proof (cases "fetch_source w raw")
    case None
    then show ?thesis using Cons.IH by simp
  next
    case (Some cal)
    then show ?thesis using Cons.IH
      by (cases "cal_events_loop start endt tzl cal acc") simp_all
  qed
qed

lemma fetch_unfold:
  "today_window w (tz_gettz w tzname) = Inr (start, endt) \<Longrightarrow>
   fetch_ics_events_today w urls tzname =
     bindE (urls_loop w start endt (tz_gettz w tzname) urls [])
       (\<lambda>events. Inr (sort_key (\<lambda>x. wall (fst x)) events))"
  by (simp add: fetch_ics_events_today_def Let_def)

section \<open>The time window\<close>

lemma demo_window:
  "today_window demo_world tz_minus3 = Inr (local_at 739051 0 0, local_at 739052 0 0)"
  by (simp add: today_window_def demo_world_def replace_time_def add_timedelta_def Let_def
      clock_def local_at_def US_PER_DAY_def US_PER_HOUR_def US_PER_MINUTE_def MAX_US_def)

text \<open>
  Claim C5. Whatever the zone and the clock, a window that \<open>today_window\<close> computes
  spans exactly 24 hours (the difference Python's \<open>end - start\<close> yields), and its start
  has hour, minute, second and microsecond zero and carries the local zone. A window is
  computed for every clock reading before 9999-12-31, the last day \<open>datetime\<close> can
  represent (there \<open>start + timedelta(days=1)\<close> raises \<open>OverflowError\<close>).
\<close>

theorem window_is_one_day:
  "(\<forall>start endt. today_window w tz = Inr (start, endt) \<longrightarrow>
      dt_sub endt start = Inr (24 * US_PER_HOUR)
      \<and> hour start = 0 \<and> minute start = 0 \<and> second start = 0 \<and> microsecond start = 0
      \<and> tzinfo start = Some tz \<and> tzinfo endt = Some tz)
   \<and> (0 \<le> datetime_now w tz \<and> datetime_now w tz < MAX_US - US_PER_DAY \<longrightarrow>
        (\<exists>start endt. today_window w tz = Inr (start, endt)))"
proof (intro conjI allI impI)
  fix start endt
  assume a: "today_window w tz = Inr (start, endt)"
  note e = today_window_eq[OF a]
  show "dt_sub endt start = Inr (24 * US_PER_HOUR)"
    using e by (simp add: dt_sub_def US_PER_DAY_def US_PER_HOUR_def)
  show "hour start = 0" using e by (simp add: hour_def US_PER_DAY_def US_PER_HOUR_def)
  show "minute start = 0"
    using e by (simp add: minute_def US_PER_DAY_def US_PER_HOUR_def US_PER_MINUTE_def)
  show "second start = 0" using e by (simp add: second_def US_PER_DAY_def US_PER_MINUTE_def)
  show "microsecond start = 0" using e by (simp add: microsecond_def US_PER_DAY_def)
  show "tzinfo start = Some tz" using e by simp
  show "tzinfo endt = Some tz" using e by simp
next
  assume b: "0 \<le> datetime_now w tz \<and> datetime_now w tz < MAX_US - US_PER_DAY"
  have "(datetime_now w tz div US_PER_DAY) * US_PER_DAY \<le> datetime_now w tz"
    by (simp add: US_PER_DAY_def)
  moreover have "0 \<le> (datetime_now w tz div US_PER_DAY) * US_PER_DAY"
    using b by (simp add: US_PER_DAY_def pos_imp_zdiv_nonneg_iff)
  moreover have "0 < US_PER_DAY" by (simp add: US_PER_DAY_def)
  ultimately have "0 \<le> (datetime_now w tz div US_PER_DAY) * US_PER_DAY + US_PER_DAY
      \<and> (datetime_now w tz div US_PER_DAY) * US_PER_DAY + US_PER_DAY < MAX_US"
    using b by arith
  then show "\<exists>start endt. today_window w tz = Inr (start, endt)"
    by (simp add: today_window_def replace_time_def add_timedelta_def Let_def)
qed

theorem window_is_one_day_witness:
  "today_window demo_world tz_minus3 = Inr (local_at 739051 0 0, local_at 739052 0 0)
   \<and> dt_sub (local_at 739052 0 0) (local_at 739051 0 0) = Inr (24 * US_PER_HOUR)
   \<and> hour (local_at 739051 0 0) = 0 \<and> minute (local_at 739051 0 0) = 0
   \<and> second (local_at 739051 0 0) = 0 \<and> microsecond (local_at 739051 0 0) = 0
   \<and> 0 \<le> datetime_now demo_world tz_minus3
   \<and> datetime_now demo_world tz_minus3 < MAX_US - US_PER_DAY"
proof -
  have r: "0 \<le> datetime_now demo_world tz_minus3
      \<and> datetime_now demo_world tz_minus3 < MAX_US - US_PER_DAY"
    by (simp add: demo_world_def clock_def US_PER_DAY_def US_PER_HOUR_def US_PER_MINUTE_def
        MAX_US_def)
  show ?thesis
    using window_is_one_day[of demo_world tz_minus3] demo_window r by blast
qed

section \<open>The agenda\<close>

lemmas time_consts = US_PER_DAY_def US_PER_HOUR_def US_PER_MINUTE_def MAX_US_def clock_def

lemma of_char_asc [simp]: "asc [] = []" "asc (c # cs) = of_char c # asc cs"
  by (simp_all add: asc_def)

lemma fetch_agenda_set:
  assumes win: "today_window w (tz_gettz w tzname) = Inr (start, endt)"
    and res: "fetch_ics_events_today w urls tzname = Inr agenda"
  shows "set agenda = {(s, t, r). \<exists>raw\<in>set urls. \<exists>cal. fetch_source w raw = Some cal \<and>
        (\<exists>e\<in>set cal. \<exists>b. e_begin e = Some b
        \<and> normalize_event (tz_gettz w tzname) e b = Inr (s, t, r)
        \<and> wall start < wall t \<and> wall s < wall endt)}"
proof -
  from today_window_eq[OF win] have tz: "tzinfo start = Some (tz_gettz w tzname)"
    "tzinfo endt = Some (tz_gettz w tzname)" by simp_all
  from res obtain events where
    l: "urls_loop w start endt (tz_gettz w tzname) urls [] = Inr events"
    and a: "agenda = sort_key (\<lambda>x. wall (fst x)) events"
    unfolding fetch_unfold[OF win] by (auto simp: bindE_eq_Inr)
  from urls_loop_set[OF tz l] a show ?thesis by simp
qed

text \<open>The example run, evaluated.\<close>

lemma demo_sources:
  "fetch_source demo_world (Some (asc ''https://a/c.ics''))
     = Some [ev_guardia, ev_reunion, ev_cena, ev_vacio]"
  "fetch_source demo_world (Some (asc ''https://x/c.ics'')) = None"
  "fetch_source demo_world (Some (asc ''https://b/c.ics''))
     = Some [ev_clase, ev_viaje, ev_aviso]"
  by (simp_all add: fetch_source_def clean_url_def strip_with_def py_isspace_def demo_world_def
      Let_def)

lemma demo_normalized:
  "normalize_event tz_minus3 ev_guardia (utc_at 739052 1 0) = Inr n_guardia"
  "normalize_event tz_minus3 ev_reunion (utc_at 739051 12 0) = Inr n_reunion"
  "normalize_event tz_minus3 ev_cena (utc_at 739051 0 0) = Inr n_cena"
  "normalize_event tz_minus3 ev_viaje (utc_at 739052 3 0) = Inr n_viaje"
  "normalize_event tz_minus3 ev_clase (utc_at 739051 14 0) = Inr n_clase"
  "normalize_event tz_minus3 ev_aviso (Plain \<lparr>wall = clock 739051 18 0, tzinfo = None\<rparr>)
     = Inr n_aviso"
  by (simp_all add: normalize_event_def to_local_dt_def astimezone_def add_timedelta_def
      Let_def tz_UTC_def tz_minus3_def utc_at_def local_at_def time_consts
      ev_guardia_def ev_reunion_def ev_cena_def ev_viaje_def ev_clase_def ev_aviso_def
      n_guardia_def n_reunion_def n_cena_def n_viaje_def n_clase_def n_aviso_def)

lemma demo_steps:
  "event_step (local_at 739051 0 0) (local_at 739052 0 0) tz_minus3 ev_guardia acc
     = Inr (acc @ [n_guardia])"
  "event_step (local_at 739051 0 0) (local_at 739052 0 0) tz_minus3 ev_reunion acc
     = Inr (acc @ [n_reunion])"
  "event_step (local_at 739051 0 0) (local_at 739052 0 0) tz_minus3 ev_cena acc = Inr acc"
  "event_step (local_at 739051 0 0) (local_at 739052 0 0) tz_minus3 ev_vacio acc = Inr acc"
  "event_step (local_at 739051 0 0) (local_at 739052 0 0) tz_minus3 ev_clase acc
     = Inr (acc @ [n_clase])"
  "event_step (local_at 739051 0 0) (local_at 739052 0 0) tz_minus3 ev_viaje acc = Inr acc"
  "event_step (local_at 739051 0 0) (local_at 739052 0 0) tz_minus3 ev_aviso acc
     = Inr (acc @ [n_aviso])"
proof -
  have b: "e_begin ev_guardia = Some (utc_at 739052 1 0)"
    "e_begin ev_reunion = Some (utc_at 739051 12 0)"
    "e_begin ev_cena = Some (utc_at 739051 0 0)"
    "e_begin ev_vacio = None"
    "e_begin ev_clase = Some (utc_at 739051 14 0)"
    "e_begin ev_viaje = Some (utc_at 739052 3 0)"
    "e_begin ev_aviso = Some (Plain \<lparr>wall = clock 739051 18 0, tzinfo = None\<rparr>)"
    by (simp_all add: ev_guardia_def ev_reunion_def ev_cena_def ev_viaje_def ev_clase_def
        ev_aviso_def ev_vacio_def)
  have i: "intersects_today (local_at 739051 0 0) (local_at 739052 0 0) n_guardia = Inr True"
    "intersects_today (local_at 739051 0 0) (local_at 739052 0 0) n_reunion = Inr True"
    "intersects_today (local_at 739051 0 0) (local_at 739052 0 0) n_cena = Inr False"
    "intersects_today (local_at 739051 0 0) (local_at 739052 0 0) n_clase = Inr True"
    "intersects_today (local_at 739051 0 0) (local_at 739052 0 0) n_viaje = Inr False"
    "intersects_today (local_at 739051 0 0) (local_at 739052 0 0) n_aviso = Inr True"
    by (simp_all add: intersects_today_def dt_gt_def dt_lt_def dt_sub_def local_at_def
        time_consts n_guardia_def n_reunion_def n_cena_def n_viaje_def n_clase_def n_aviso_def)
  show "event_step (local_at 739051 0 0) (local_at 739052 0 0) tz_minus3 ev_guardia acc
     = Inr (acc @ [n_guardia])"
    by (simp add: event_step_def b demo_normalized i)
  show "event_step (local_at 739051 0 0) (local_at 739052 0 0) tz_minus3 ev_reunion acc
     = Inr (acc @ [n_reunion])"
    by (simp add: event_step_def b demo_normalized i)
  show "event_step (local_at 739051 0 0) (local_at 739052 0 0) tz_minus3 ev_cena acc = Inr acc"
    by (simp add: event_step_def b demo_normalized i)
  show "event_step (local_at 739051 0 0) (local_at 739052 0 0) tz_minus3 ev_vacio acc = Inr acc"
    by (simp add: event_step_def b)
  show "event_step (local_at 739051 0 0) (local_at 739052 0 0) tz_minus3 ev_clase acc
     = Inr (acc @ [n_clase])"
    by (simp add: event_step_def b demo_normalized i)
  show "event_step (local_at 739051 0 0) (local_at 739052 0 0) tz_minus3 ev_viaje acc = Inr acc"
    by (simp add: event_step_def b demo_normalized i)
  show "event_step (local_at 739051 0 0) (local_at 739052 0 0) tz_minus3 ev_aviso acc
     = Inr (acc @ [n_aviso])"
    by (simp add: event_step_def b demo_normalized i)
qed

lemma demo_urls_loop:
  "urls_loop demo_world (local_at 739051 0 0) (local_at 739052 0 0) tz_minus3
     [Some (asc ''https://a/c.ics''), Some (asc ''https://x/c.ics''),
      Some (asc ''https://b/c.ics'')] []
     = Inr [n_guardia, n_reunion, n_clase, n_aviso]"
  by (simp add: demo_sources demo_steps del: of_char_asc)

lemma demo_urls: "map Some (ICAL_URLS demo_world) =
     [Some (asc ''https://a/c.ics''), Some (asc ''https://x/c.ics''),
      Some (asc ''https://b/c.ics'')]"
  by (simp add: demo_world_def del: of_char_asc)

lemma demo_tz: "tz_gettz demo_world (TZ_NAME demo_world) = tz_minus3"
  by (simp add: demo_world_def)

lemma demo_fetch:
  "fetch_ics_events_today demo_world (map Some (ICAL_URLS demo_world)) (TZ_NAME demo_world)
     = Inr demo_agenda"
proof -
  have "sort_key (\<lambda>x. wall (fst x)) [n_guardia, n_reunion, n_clase, n_aviso] = demo_agenda"
    by (simp add: demo_agenda_def n_guardia_def n_reunion_def n_clase_def n_aviso_def
        local_at_def time_consts)
  then show ?thesis
    unfolding fetch_ics_events_today_def Let_def demo_tz demo_urls demo_window
    by (simp only: bindE_simps prod.case demo_urls_loop)
qed

lemma demo_window_tz:
  "today_window demo_world (tz_gettz demo_world (TZ_NAME demo_world))
     = Inr (local_at 739051 0 0, local_at 739052 0 0)"
  by (simp only: demo_tz demo_window)





text \<open>
  Claim C1. Take a run whose window is \<open>(start, endt)\<close> and whose agenda is built
  without error, and any event of a fetched source that normalises to \<open>(s, t, r)\<close>.
  The event is in the agenda if and only if its end is after the window's start and its
  start is before the window's end; the two comparisons are Python's \<open>t > start\<close> and
  \<open>s < end\<close>, which here compare wall clocks. In particular an event ending exactly at
  the window's start is left out, one starting exactly at the window's end is left out,
  and one that starts before the window's end and ends after it is kept.
\<close>

theorem kept_iff_intersects:
  assumes "today_window w (tz_gettz w tzname) = Inr (start, endt)"
    and "fetch_ics_events_today w urls tzname = Inr agenda"
    and "raw \<in> set urls" and "fetch_source w raw = Some cal" and "e \<in> set cal"
    and "e_begin e = Some b"
    and "normalize_event (tz_gettz w tzname) e b = Inr (s, t, r)"
  shows "((s, t, r) \<in> set agenda \<longleftrightarrow> wall t > wall start \<and> wall s < wall endt)
    \<and> dt_gt t start = Inr (wall t > wall start) \<and> dt_lt s endt = Inr (wall s < wall endt)
    \<and> (wall t = wall start \<longrightarrow> (s, t, r) \<notin> set agenda)
    \<and> (wall s = wall endt \<longrightarrow> (s, t, r) \<notin> set agenda)
    \<and> (wall s < wall endt \<and> wall endt < wall t \<longrightarrow> (s, t, r) \<in> set agenda)"
proof -
  note e = today_window_eq[OF assms(1)]
  have lt: "wall start < wall endt"
    using e by (simp add: US_PER_DAY_def)
  have tz: "tzinfo start = Some (tz_gettz w tzname)" "tzinfo endt = Some (tz_gettz w tzname)"
    using e by simp_all
  from normalize_event_tz[OF assms(7)] obtain zs zt where
    z: "tzinfo s = Some zs" "tzinfo t = Some zt" "tzid zs = tzid (tz_gettz w tzname)"
       "tzid zt = tzid (tz_gettz w tzname)" by blast
  have iff: "(s, t, r) \<in> set agenda \<longleftrightarrow> wall t > wall start \<and> wall s < wall endt"
  proof
    assume "(s, t, r) \<in> set agenda"
    then show "wall t > wall start \<and> wall s < wall endt"
      unfolding fetch_agenda_set[OF assms(1,2)] by auto
  next
    assume "wall t > wall start \<and> wall s < wall endt"
    then show "(s, t, r) \<in> set agenda"
      unfolding fetch_agenda_set[OF assms(1,2)] using assms(3-7) by auto
  qed
  have g: "dt_gt t start = Inr (wall t > wall start)"
    using z tz by (simp add: dt_gt_def dt_sub_same_zone)
  have l: "dt_lt s endt = Inr (wall s < wall endt)"
    using z tz by (simp add: dt_lt_def dt_sub_same_zone)
  show ?thesis using iff g l lt by auto
qed

theorem kept_iff_intersects_witness:
  "fetch_ics_events_today demo_world (map Some (ICAL_URLS demo_world)) (TZ_NAME demo_world)
     = Inr demo_agenda
   \<and> wall (fst n_guardia) < wall (local_at 739052 0 0)
   \<and> wall (local_at 739052 0 0) < wall (fst (snd n_guardia))
   \<and> n_guardia \<in> set demo_agenda
   \<and> wall (fst (snd n_cena)) = wall (local_at 739051 0 0) \<and> n_cena \<notin> set demo_agenda
   \<and> wall (fst n_viaje) = wall (local_at 739052 0 0) \<and> n_viaje \<notin> set demo_agenda"
proof -
  have a: "Some (asc ''https://a/c.ics'') \<in> set (map Some (ICAL_URLS demo_world))"
    and b: "Some (asc ''https://b/c.ics'') \<in> set (map Some (ICAL_URLS demo_world))"
    by (simp_all add: demo_urls del: of_char_asc)
  have bg: "e_begin ev_guardia = Some (utc_at 739052 1 0)"
    "e_begin ev_cena = Some (utc_at 739051 0 0)"
    "e_begin ev_viaje = Some (utc_at 739052 3 0)"
    by (simp_all add: ev_guardia_def ev_cena_def ev_viaje_def)
  have m: "ev_guardia \<in> set [ev_guardia, ev_reunion, ev_cena, ev_vacio]"
    "ev_cena \<in> set [ev_guardia, ev_reunion, ev_cena, ev_vacio]"
    "ev_viaje \<in> set [ev_clase, ev_viaje, ev_aviso]"
    by simp_all
  have g: "wall (local_at 739051 22 0) < wall (local_at 739052 0 0)
         \<and> wall (local_at 739052 0 0) < wall (local_at 739052 2 0)
       \<longrightarrow> n_guardia \<in> set demo_agenda"
    using kept_iff_intersects[OF demo_window_tz demo_fetch a demo_sources(1) m(1) bg(1)
        demo_normalized(1)[unfolded n_guardia_def demo_tz[symmetric]]]
    unfolding n_guardia_def by blast
  have c: "wall (local_at 739051 0 0) = wall (local_at 739051 0 0)
       \<longrightarrow> n_cena \<notin> set demo_agenda"
    using kept_iff_intersects[OF demo_window_tz demo_fetch a demo_sources(1) m(2) bg(2)
        demo_normalized(3)[unfolded n_cena_def demo_tz[symmetric]]]
    unfolding n_cena_def by blast
  have v: "wall (local_at 739052 0 0) = wall (local_at 739052 0 0)
       \<longrightarrow> n_viaje \<notin> set demo_agenda"
    using kept_iff_intersects[OF demo_window_tz demo_fetch b demo_sources(3) m(3) bg(3)
        demo_normalized(4)[unfolded n_viaje_def demo_tz[symmetric]]]
    unfolding n_viaje_def by blast
  have w: "wall (local_at 739051 22 0) < wall (local_at 739052 0 0)"
    "wall (local_at 739052 0 0) < wall (local_at 739052 2 0)"
    by (simp_all add: local_at_def time_consts)
  have f: "fst n_guardia = local_at 739051 22 0" "fst (snd n_guardia) = local_at 739052 2 0"
    "fst (snd n_cena) = local_at 739051 0 0" "fst n_viaje = local_at 739052 0 0"
    by (simp_all add: n_guardia_def n_cena_def n_viaje_def)
  show ?thesis
    using demo_fetch g c v w unfolding f by blast
qed

text \<open>
  Claim C4. A source whose download or parse fails contributes nothing and stops
  nothing: the result for a list of sources containing it equals the result for the
  list without it, whatever the other sources are and wherever it stands.
\<close>

theorem failing_source_skipped:
  assumes "http_calendar w (clean_url u) = None"
  shows "fetch_ics_events_today w (xs @ u # ys) tzname = fetch_ics_events_today w (xs @ ys) tzname"
proof -
  have f: "fetch_source w u = None"
    using assms by (simp add: fetch_source_def Let_def)
  have "urls_loop w start endt tzl (xs @ u # ys) [] = urls_loop w start endt tzl (xs @ ys) []"
    for start endt tzl
  proof -
    have "urls_loop w start endt tzl (u # ys) = urls_loop w start endt tzl ys"
      using f by (intro ext) simp
    then show ?thesis
      by (simp only: urls_loop_append[of w start endt tzl xs])
  qed
  then show ?thesis
    by (simp add: fetch_ics_events_today_def Let_def)
qed

theorem failing_source_skipped_witness:
  "http_calendar demo_world (clean_url (Some (asc ''https://x/c.ics''))) = None
   \<and> fetch_ics_events_today demo_world
        [Some (asc ''https://a/c.ics''), Some (asc ''https://b/c.ics'')] (TZ_NAME demo_world)
     = Inr demo_agenda"
proof -
  have h: "http_calendar demo_world (clean_url (Some (asc ''https://x/c.ics''))) = None"
    by (simp add: clean_url_def strip_with_def py_isspace_def demo_world_def)
  have "fetch_ics_events_today demo_world
          ([Some (asc ''https://a/c.ics'')] @ Some (asc ''https://x/c.ics'')
             # [Some (asc ''https://b/c.ics'')]) (TZ_NAME demo_world)
      = fetch_ics_events_today demo_world
          ([Some (asc ''https://a/c.ics'')] @ [Some (asc ''https://b/c.ics'')])
          (TZ_NAME demo_world)"
    by (rule failing_source_skipped[OF h])
  then have "fetch_ics_events_today demo_world
        [Some (asc ''https://a/c.ics''), Some (asc ''https://b/c.ics'')] (TZ_NAME demo_world)
     = Inr demo_agenda"
    using demo_fetch unfolding demo_urls by (simp del: of_char_asc)
  with h show ?thesis by blast
qed




text \<open>
  Claim C7. An Arrow object and a plain datetime are treated alike. A timestamp without
  tzinfo converts exactly as the same wall clock tagged UTC does, that is, the target
  zone's offset at that UTC instant is added; a timestamp with a tzinfo is converted
  from its own zone: its own offset is subtracted and the target's offset at the UTC
  instant reached is added.
\<close>

theorem naive_is_utc:
  "to_local_dt tzl (Arrow d) = to_local_dt tzl (Plain d)
   \<and> (tzinfo d = None \<longrightarrow>
        to_local_dt tzl (Plain d) = to_local_dt tzl (Plain (d\<lparr>tzinfo := Some tz_UTC\<rparr>))
        \<and> (tzid tzl \<noteq> tzid tz_UTC \<and> 0 \<le> wall d \<and> wall d < MAX_US \<longrightarrow>
             to_local_dt tzl (Plain d) =
               add_timedelta \<lparr>wall = wall d, tzinfo = Some tzl\<rparr> (utcoffset_utc tzl (wall d))))
   \<and> (\<forall>z. tzinfo d = Some z \<longrightarrow> to_local_dt tzl (Plain d) = astimezone d z tzl)
   \<and> (\<forall>z. tzinfo d = Some z \<and> tzid z \<noteq> tzid tzl \<longrightarrow>
        to_local_dt tzl (Plain d) =
          bindE (add_timedelta d (- utcoffset z (wall d))) (\<lambda>utc.
            add_timedelta \<lparr>wall = wall utc, tzinfo = Some tzl\<rparr> (utcoffset_utc tzl (wall utc))))"
  by (cases d) (auto simp: to_local_dt_def astimezone_def add_timedelta_def Let_def tz_UTC_def
      bindE_def split: sum.splits)

theorem naive_is_utc_witness:
  "tzinfo \<lparr>wall = clock 739051 18 0, tzinfo = None\<rparr> = None
   \<and> to_local_dt tz_minus3 (Plain \<lparr>wall = clock 739051 18 0, tzinfo = None\<rparr>)
       = Inr (local_at 739051 15 0)
   \<and> tzid tz_UTC \<noteq> tzid tz_minus3
   \<and> to_local_dt tz_minus3 (Plain \<lparr>wall = clock 739051 18 0, tzinfo = Some tz_UTC\<rparr>)
       = Inr (local_at 739051 15 0)"
proof -
  let ?d = "\<lparr>wall = clock 739051 18 0, tzinfo = None\<rparr>"
  let ?a = "\<lparr>wall = clock 739051 18 0, tzinfo = Some tz_UTC\<rparr>"
  have h: "tzinfo ?d = None" "tzid tz_minus3 \<noteq> tzid tz_UTC" "0 \<le> wall ?d" "wall ?d < MAX_US"
    "tzinfo ?a = Some tz_UTC" "tzid tz_UTC \<noteq> tzid tz_minus3"
    by (simp_all add: tz_minus3_def tz_UTC_def time_consts)
  have "to_local_dt tz_minus3 (Plain ?d) =
      add_timedelta \<lparr>wall = wall ?d, tzinfo = Some tz_minus3\<rparr> (utcoffset_utc tz_minus3 (wall ?d))"
    using naive_is_utc[of tz_minus3 ?d] h(1-4) by blast
  then have n: "to_local_dt tz_minus3 (Plain ?d) = Inr (local_at 739051 15 0)"
    by (simp add: add_timedelta_def tz_minus3_def local_at_def time_consts)
  have "to_local_dt tz_minus3 (Plain ?a) =
      bindE (add_timedelta ?a (- utcoffset tz_UTC (wall ?a))) (\<lambda>utc.
        add_timedelta \<lparr>wall = wall utc, tzinfo = Some tz_minus3\<rparr>
          (utcoffset_utc tz_minus3 (wall utc)))"
    using naive_is_utc[of tz_minus3 ?a] h(5,6) by blast
  then have a: "to_local_dt tz_minus3 (Plain ?a) = Inr (local_at 739051 15 0)"
    by (simp add: add_timedelta_def tz_minus3_def tz_UTC_def local_at_def time_consts)
  show ?thesis using h(1,6) n a by blast
qed

text \<open>
  Claim C8. For a raw event without \<open>end\<close>, normalisation converts \<open>begin\<close> and uses
  the result for both ends of the event: whenever it yields \<open>(s, t, r)\<close>, \<open>t\<close> is \<open>s\<close>
  and \<open>t - s\<close> is zero.
\<close>

theorem missing_end_is_begin:
  assumes "e_end e = None"
  shows "normalize_event tzl e b =
           bindE (to_local_dt tzl b) (\<lambda>s. Inr (s, s, e_name e, e_all_day e, e_location e))
    \<and> (\<forall>s t r. normalize_event tzl e b = Inr (s, t, r) \<longrightarrow> t = s \<and> dt_sub t s = Inr 0)"
proof -
  have eq: "normalize_event tzl e b =
           bindE (to_local_dt tzl b) (\<lambda>s. Inr (s, s, e_name e, e_all_day e, e_location e))"
    using assms by (cases "to_local_dt tzl b") (simp_all add: normalize_event_def)
  have "t = s \<and> dt_sub t s = Inr 0" if n: "normalize_event tzl e b = Inr (s, t, r)" for s t r
  proof -
    from n eq have "t = s" by (auto simp: bindE_eq_Inr)
    moreover from normalize_event_tz[OF n] obtain zs where "tzinfo s = Some zs" by blast
    ultimately show ?thesis by (simp add: dt_sub_same_zone)
  qed
  with eq show ?thesis by blast
qed

theorem missing_end_is_begin_witness:
  "e_end ev_aviso = None
   \<and> normalize_event tz_minus3 ev_aviso (Plain \<lparr>wall = clock 739051 18 0, tzinfo = None\<rparr>)
       = Inr (local_at 739051 15 0, local_at 739051 15 0, Some (asc ''Aviso''), False, None)
   \<and> dt_sub (local_at 739051 15 0) (local_at 739051 15 0) = Inr 0"
proof -
  have h: "e_end ev_aviso = None" by (simp add: ev_aviso_def)
  note n = demo_normalized(6)[unfolded n_aviso_def]
  from missing_end_is_begin[OF h, of tz_minus3
      "Plain \<lparr>wall = clock 739051 18 0, tzinfo = None\<rparr>"] n
  have "dt_sub (local_at 739051 15 0) (local_at 739051 15 0) = Inr 0" by blast
  with h n show ?thesis by blast
qed

section \<open>Rendering the agenda\<close>

lemma digits_small: "n < 10 \<Longrightarrow> digits n = [48 + n]"
  by (simp add: digits.simps)

lemma digits_two: "10 \<le> n \<Longrightarrow> n < 100 \<Longrightarrow> digits n = [48 + n div 10, 48 + n mod 10]"
  by (subst digits.simps) (simp add: digits_small)


lemma demo_lines:
  "agenda_line n_reunion = Inr (asc ''09:00 (1h 30m) '' @ emdash @ asc '' *Reunion* @ Oficina'')"
  "agenda_line n_clase = Inr (asc ''11:00 (45m) '' @ emdash @ asc '' *Clase*'')"
  "agenda_line n_aviso = Inr (asc ''15:00 (0m) '' @ emdash @ asc '' *Aviso*'')"
  "agenda_line n_guardia = Inr (asc ''22:00 (4h 0m) '' @ emdash @ asc '' *Guardia*'')"
  "agenda_line n_turno = Inr (asc ''10:00 (-1h 0m) '' @ emdash @ asc '' *Turno*'')"
  by (simp_all add: agenda_line_def n_reunion_def n_clase_def n_aviso_def n_guardia_def
      n_turno_def local_at_def time_consts dt_sub_def tz_minus3_def strftime_HM_def pad2_def
      hour_def minute_def duration_str_def Let_def str_int_def digits_small digits_two
      str_opt_def emdash_def)

lemma demo_format: "format_agenda demo_agenda = Inr demo_agenda_text"
  by (simp add: format_agenda_def demo_agenda_def demo_lines join_def demo_agenda_text_def
      del: of_char_asc)

lemma demo_weather:
  "nice_weather_text_2days demo_world (asc ''Agua de Oro'') demo_forecast = Inr demo_weather_text"
  by (simp add: nice_weather_text_2days_def demo_forecast_def day_fields_def getitem_key_def
      getitem_idx_def slice_last5_def wmo_get_def WMO_DESC_def day_paragraph_def py_format_def
      join_def demo_weather_text_def str_int_def digits_small digits_two emdash_def)









text \<open>
  A negative hour part does not need an event that ends before it begins: the forty
  minutes of \<open>ev_tren\<close> span the end of daylight saving time, both ends carry the
  local zone, so \<open>t - s\<close> is taken on the wall clocks, from 02:30 to 02:10.
\<close>

lemma tren_fetch:
  "fetch_ics_events_today tren_world (map Some (ICAL_URLS tren_world)) (TZ_NAME tren_world)
     = Inr [n_tren]"
proof -
  let ?start = "\<lparr>wall = clock 739185 0 0, tzinfo = Some tz_dst\<rparr>"
  let ?endt = "\<lparr>wall = clock 739186 0 0, tzinfo = Some tz_dst\<rparr>"
  have f: "tz_gettz tren_world (TZ_NAME tren_world) = tz_dst"
    "map Some (ICAL_URLS tren_world) =
       [Some (asc ''https://a/c.ics''), Some (asc ''https://x/c.ics''),
        Some (asc ''https://b/c.ics'')]"
    "today_window tren_world tz_dst = Inr (?start, ?endt)"
    "fetch_source tren_world (Some (asc ''https://a/c.ics'')) = Some [ev_tren]"
    "fetch_source tren_world (Some (asc ''https://x/c.ics'')) = None"
    "fetch_source tren_world (Some (asc ''https://b/c.ics'')) = None"
    by (simp_all add: tren_world_def demo_world_def today_window_def replace_time_def
        add_timedelta_def Let_def time_consts fetch_source_def clean_url_def
        strip_with_def py_isspace_def)
  have n: "normalize_event tz_dst ev_tren (utc_at 739185 0 30) = Inr n_tren"
    by (simp add: normalize_event_def to_local_dt_def astimezone_def add_timedelta_def
      Let_def tz_UTC_def tz_dst_def utc_at_def time_consts ev_tren_def n_tren_def)
  have i: "intersects_today ?start ?endt n_tren = Inr True"
    by (simp add: intersects_today_def dt_gt_def dt_lt_def dt_sub_def time_consts n_tren_def)
  have b: "e_begin ev_tren = Some (utc_at 739185 0 30)" by (simp add: ev_tren_def)
  have "event_step ?start ?endt tz_dst ev_tren [] = Inr [n_tren]"
    by (simp add: event_step_def b n i)
  then have "urls_loop tren_world ?start ?endt tz_dst
     [Some (asc ''https://a/c.ics''), Some (asc ''https://x/c.ics''),
      Some (asc ''https://b/c.ics'')] [] = Inr [n_tren]"
    by (simp add: f del: of_char_asc)
  then show ?thesis
    unfolding fetch_ics_events_today_def Let_def f
    by (simp only: bindE_simps prod.case sort_key_simps insort_key.simps)
qed

lemma tren_line:
  "agenda_line n_tren = Inr (asc ''02:30 (-1h 40m) '' @ emdash @ asc '' *Tren*'')"
  by (simp add: agenda_line_def n_tren_def time_consts dt_sub_def strftime_HM_def pad2_def
      hour_def minute_def duration_str_def Let_def str_int_def digits_small digits_two
      str_opt_def emdash_def)

section \<open>The run\<close>

lemma demo_rain: "rain_check demo_forecast = Inr True"
  by (simp add: rain_check_def demo_forecast_def getitem_key_def getitem_idx_def
      present_ge_50_def py_ge_50_def)

lemma demo_coordinates:
  "coordinates demo_world = Inr (- 3106 / 100, - 6430 / 100, asc ''Agua de Oro'')"
  by (simp add: coordinates_def demo_world_def truthy_def str_opt_def)

lemma demo_compose: "compose demo_world = Inr (demo_forecast, demo_msg)"
proof -
  have "fetch_weather demo_world (- 3106 / 100) (- 6430 / 100) (TZ_NAME demo_world)
      = Inr demo_forecast"
    by (simp add: demo_world_def)
  then show ?thesis
    unfolding compose_def demo_coordinates
    by (simp add: demo_fetch demo_weather demo_format demo_msg_def del: of_char_asc)
qed

lemma demo_send:
  "send_telegram demo_world out text = Inr (out @ [text])"
  by (simp add: send_telegram_def demo_world_def truthy_def)

lemma run_success:
  assumes "fst (run w) = None"
  shows "\<exists>daily msg. compose w = Inr (daily, msg)
     \<and> snd (run w) = [msg, with_rain_alert daily msg]"
  using assms
  by (auto simp: run_def send_telegram_def split: sum.splits prod.splits if_splits option.splits)

lemma bad_weather:
  "nice_weather_text_2days demo_world (asc ''Agua de Oro'') bad_forecast = Inl TypeError"
  by (simp add: nice_weather_text_2days_def bad_forecast_def day_fields_def getitem_key_def
      getitem_idx_def slice_last5_def wmo_get_def)

text \<open>
  Claim C3 asks that a successful run delivers the assembled message by exactly one send.
  Whenever \<open>run\<close> succeeds it has sent twice (fact \<open>run_success\<close>): the message
  without banner at line 172, and the message again, with the banner when the rain check
  asks for it, at line 182. On the example run both sends succeed and two messages are
  delivered.
\<close>

theorem run_sends_twice:
  "run demo_world = (None, [demo_msg, rain_banner @ demo_msg])
   \<and> length (snd (run demo_world)) = 2"
proof -
  have "with_rain_alert demo_forecast demo_msg = rain_banner @ demo_msg"
    by (simp add: with_rain_alert_def demo_rain)
  then have "run demo_world = (None, [demo_msg, rain_banner @ demo_msg])"
    by (simp add: run_def demo_compose demo_send)
  then show ?thesis by simp
qed



section \<open>The weather text\<close>

lemma urls_loop_world:
  assumes "\<And>raw. fetch_source w raw = fetch_source w' raw"
  shows "urls_loop w start endt tzl urls acc = urls_loop w' start endt tzl urls acc"
proof (induction urls arbitrary: acc)
  case Nil
  then show ?case by simp
next
  case (Cons raw rest)
  show ?case
  proof (cases "fetch_source w' raw")
    case None
    then show ?thesis using Cons.IH assms by simp
  next
    case (Some cal)
    then show ?thesis using Cons.IH assms
      by (cases "cal_events_loop start endt tzl cal acc") simp_all
  qed
qed

lemma fetch_world:
  assumes "tz_gettz w = tz_gettz w'" "datetime_now w = datetime_now w'"
    "http_calendar w = http_calendar w'"
  shows "fetch_ics_events_today w urls tzname = fetch_ics_events_today w' urls tzname"
proof -
  have "fetch_source w raw = fetch_source w' raw" for raw
    using assms(3) by (simp add: fetch_source_def Let_def)
  from urls_loop_world[of w w', OF this] have
    "urls_loop w start endt tzl urls acc = urls_loop w' start endt tzl urls acc"
    for start endt tzl acc .
  moreover have "today_window w tzl = today_window w' tzl" for tzl
    using assms(2) by (simp add: today_window_def)
  ultimately show ?thesis
    using assms(1) by (simp add: fetch_ics_events_today_def Let_def)
qed

lemma weather_days_more:
  "weather_days w data days lines = Inr res \<Longrightarrow>
     \<exists>more. res = lines @ more \<and> (\<forall>p\<in>set more. \<exists>q. p = 10 # q)"
proof (induction days arbitrary: lines)
  case Nil
  then show ?case by simp
next
  case (Cons d days)
  obtain idx label where d: "d = (idx, label)" by (cases d) auto
  show ?case
  proof (cases "day_fields data idx")
    case (Inl e)
    with Cons.prems d have "weather_days w data days lines = Inr res"
      by (simp split: if_splits)
    from Cons.IH[OF this] show ?thesis .
  next
    case (Inr flds)
    obtain tmin tmax pp sr ss wcode where f: "flds = (tmin, tmax, pp, sr, ss, wcode)"
      by (cases flds) auto
    from Cons.prems d Inr f obtain found where
      "weather_days w data days
         (lines @ [day_paragraph w label (tmin, tmax, pp, sr, ss, wcode) found]) = Inr res"
      by (auto simp: bindE_eq_Inr)
    from Cons.IH[OF this] obtain more where
      m: "res = (lines @ [day_paragraph w label (tmin, tmax, pp, sr, ss, wcode) found]) @ more"
        "\<forall>p\<in>set more. \<exists>q. p = 10 # q"
      by blast
    have "\<exists>q. day_paragraph w label (tmin, tmax, pp, sr, ss, wcode) found = 10 # q"
      by (cases found) (simp add: day_paragraph_def)
    with m have "res = lines @ (day_paragraph w label (tmin, tmax, pp, sr, ss, wcode) found # more)
       \<and> (\<forall>p\<in>set (day_paragraph w label (tmin, tmax, pp, sr, ss, wcode) found # more).
             \<exists>q. p = 10 # q)"
      by simp
    then show ?thesis by blast
  qed
qed

lemma concat_sep: "concat (map ((@) [c]) xs) = concat (map ((#) c) xs)"
  by (induction xs) simp_all

lemma weather_header_first:
  assumes "nice_weather_text_2days w city_shown data = Inr text"
  shows "\<exists>rest. text = weather_header city_shown @ rest \<and> (rest = [] \<or> (\<exists>q. rest = 10 # q))"
proof -
  from assms obtain res where
    r: "weather_days w data [(0, asc ''Hoy''), (1, asc ''Ma'' @ [241] @ asc ''ana'')]
          [weather_header city_shown] = Inr res"
    and t: "text = join [10] res"
    by (auto simp: nice_weather_text_2days_def bindE_eq_Inr simp del: of_char_asc)
  from weather_days_more[OF r] obtain more where
    m: "res = [weather_header city_shown] @ more" by blast
  have "text = weather_header city_shown @ concat (map ((#) 10) more)"
    unfolding t m by (simp add: join_def concat_sep)
  moreover have "concat (map ((#) 10) more) = [] \<or>
      (\<exists>q. concat (map ((#) 10) more) = 10 # q)"
    by (cases more) simp_all
  ultimately show ?thesis by blast
qed

lemma bindE_eq_Inl:
  "bindE m f = Inl e \<longleftrightarrow> m = Inl e \<or> (\<exists>x. m = Inr x \<and> f x = Inl e)"
  by (cases m) simp_all

lemma getitem_key_error: "getitem_key x k = Inl e \<Longrightarrow> e = KeyError \<or> e = TypeError"
  by (auto simp: getitem_key_def split: json.splits option.splits)

lemma getitem_idx_error:
  "getitem_idx x i = Inl e \<Longrightarrow> e = IndexError \<or> e = KeyError \<or> e = TypeError"
  by (auto simp: getitem_idx_def split: json.splits if_splits)

lemma slice_last5_error: "slice_last5 x = Inl e \<Longrightarrow> e = TypeError"
  by (auto simp: slice_last5_def split: json.splits)

lemma field_error:
  "bindE (getitem_key data k) (\<lambda>a. getitem_idx a idx) = Inl e \<Longrightarrow>
     e = IndexError \<or> e = KeyError \<or> e = TypeError"
  by (auto simp: bindE_eq_Inl dest: getitem_key_error getitem_idx_error)

lemma sliced_field_error:
  "bindE (bindE (getitem_key data k) (\<lambda>a. getitem_idx a idx)) slice_last5 = Inl e \<Longrightarrow>
     e = IndexError \<or> e = KeyError \<or> e = TypeError"
  by (auto simp: bindE_eq_Inl dest: getitem_key_error getitem_idx_error slice_last5_error)

lemma day_fields_error:
  assumes "day_fields data idx = Inl e"
  shows "e = IndexError \<or> e = KeyError \<or> e = TypeError"
proof -
  from assms consider
      k where "bindE (getitem_key data k) (\<lambda>a. getitem_idx a idx) = Inl e"
    | k where "bindE (bindE (getitem_key data k) (\<lambda>a. getitem_idx a idx)) slice_last5 = Inl e"
    unfolding day_fields_def bindE_eq_Inl[of _ _ e] by blast
  then show ?thesis
    by cases (auto dest: field_error sliced_field_error)
qed

lemma weather_days_error:
  "weather_days w data days lines = Inl e \<Longrightarrow>
     e = TypeError \<and> (\<exists>d\<in>set days. \<exists>tmin tmax pp sr ss wcode.
        day_fields data (fst d) = Inr (tmin, tmax, pp, sr, ss, wcode)
        \<and> ((\<exists>xs. wcode = JList xs) \<or> (\<exists>kvs. wcode = JDict kvs)))"
proof (induction days arbitrary: lines)
  case Nil
  then show ?case by simp
next
  case (Cons d days)
  obtain idx label where d: "d = (idx, label)" by (cases d) auto
  show ?case
  proof (cases "day_fields data idx")
    case (Inl e')
    with day_fields_error[OF Inl] Cons.prems d
    have "weather_days w data days lines = Inl e" by auto
    from Cons.IH[OF this] show ?thesis by auto
  next
    case (Inr flds)
    obtain tmin tmax pp sr ss wcode where f: "flds = (tmin, tmax, pp, sr, ss, wcode)"
      by (cases flds) auto
    show ?thesis
    proof (cases "wmo_get wcode")
      case (Inl e')
      then have "e' = TypeError \<and> ((\<exists>xs. wcode = JList xs) \<or> (\<exists>kvs. wcode = JDict kvs))"
        by (auto simp: wmo_get_def Let_def split: json.splits pyfloat.splits)
      moreover from Inl Cons.prems d Inr f have "e = e'" by simp
      ultimately show ?thesis using Inr f d by auto
    next
      case found: (Inr found)
      with Cons.prems d Inr f have
        "weather_days w data days
           (lines @ [day_paragraph w label (tmin, tmax, pp, sr, ss, wcode) found]) = Inl e"
        by simp
      from Cons.IH[OF this] show ?thesis by auto
    qed
  qed
qed

lemma weather_error:
  assumes "nice_weather_text_2days w city_shown data = Inl e"
  shows "e = TypeError \<and> (\<exists>idx\<in>{0, 1}. \<exists>tmin tmax pp sr ss wcode.
        day_fields data idx = Inr (tmin, tmax, pp, sr, ss, wcode)
        \<and> ((\<exists>xs. wcode = JList xs) \<or> (\<exists>kvs. wcode = JDict kvs)))"
proof -
  from assms have
    "weather_days w data [(0, asc ''Hoy''), (1, asc ''Ma'' @ [241] @ asc ''ana'')]
          [weather_header city_shown] = Inl e"
    by (auto simp: nice_weather_text_2days_def bindE_eq_Inl simp del: of_char_asc)
  from weather_days_error[OF this] show ?thesis by auto
qed

text \<open>
  Claim C10 asks that the formatter returns, for every forecast, a text that begins with
  the header. It does whenever it returns (fact \<open>weather_header_first\<close>), and it
  returns unless a day whose six fields can all be read has a JSON array or object as
  weather code (fact \<open>weather_error\<close>): \<open>WMO_DESC.get\<close> is called after the \<open>try\<close>
  statement and raises \<open>TypeError\<close> on a key that cannot be hashed. On
  \<open>bad_forecast\<close> the formatter raises and the run ends before anything is sent.
\<close>

theorem unhashable_weather_code_raises:
  "nice_weather_text_2days demo_world (asc ''Agua de Oro'') bad_forecast = Inl TypeError
   \<and> run bad_forecast_world = (Some TypeError, [])"
proof -
  have c: "coordinates bad_forecast_world
      = Inr (- 3106 / 100, - 6430 / 100, asc ''Agua de Oro'')"
    by (simp add: coordinates_def bad_forecast_world_def demo_world_def truthy_def str_opt_def)
  have f: "fetch_weather bad_forecast_world (- 3106 / 100) (- 6430 / 100)
      (TZ_NAME bad_forecast_world) = Inr bad_forecast"
    by (simp add: bad_forecast_world_def)
  have a: "fetch_ics_events_today bad_forecast_world (map Some (ICAL_URLS bad_forecast_world))
      (TZ_NAME bad_forecast_world) = Inr demo_agenda"
  proof -
    have "fetch_ics_events_today bad_forecast_world (map Some (ICAL_URLS demo_world))
        (TZ_NAME demo_world)
      = fetch_ics_events_today demo_world (map Some (ICAL_URLS demo_world)) (TZ_NAME demo_world)"
      by (rule fetch_world) (simp_all add: bad_forecast_world_def)
    then show ?thesis using demo_fetch by (simp add: bad_forecast_world_def)
  qed
  have w: "nice_weather_text_2days bad_forecast_world (asc ''Agua de Oro'') bad_forecast
      = Inl TypeError"
    by (simp add: nice_weather_text_2days_def bad_forecast_def day_fields_def getitem_key_def
      getitem_idx_def slice_last5_def wmo_get_def)
  from f have "compose bad_forecast_world = Inl TypeError"
    unfolding compose_def c by (simp add: a w del: of_char_asc)
  then have "run bad_forecast_world = (Some TypeError, [])"
    by (simp add: run_def)
  with bad_weather show ?thesis by blast
qed

end
